theory Spec2Isabelle
  imports Main "HOL-Library.Word"
begin

section \<open>ContextualException: the frame-chain model\<close>

text \<open>
  The development follows \<^verbatim>\<open>ContextualException.hpp\<close>. A C++ \<^verbatim>\<open>int\<close> is a 32-bit
  two's complement value (\<open>32 word\<close>, read with \<open>sint\<close>); \<^verbatim>\<open>std::string\<close> is \<open>string\<close>;
  \<^verbatim>\<open>std::vector<Frame>\<close> is \<open>Frame list\<close>; a \<^verbatim>\<open>size_t\<close> loop index below the size
  of a vector is a \<open>nat\<close>. A member function is a function from the object before the call
  to the object after it, or to a fault where the source would dereference a null
  pointer. Memory exhaustion is not modelled, and a \<^verbatim>\<open>const char*\<close> argument is the
  string it points to.
\<close>

type_synonym cint = "32 word"

subsection \<open>Frame\<close>

record Frame =
  message :: string
  code :: cint
  file' :: string
  line :: cint
  function' :: string
  depth :: cint

text \<open>\<^verbatim>\<open>Frame() : code(0), line(0), depth(0) {}\<close>\<close>

definition Frame_default :: Frame where
  "Frame_default =
     \<lparr>message = [], code = 0, file' = [], line = 0, function' = [], depth = 0\<rparr>"

text \<open>The five-argument constructor of \<^verbatim>\<open>Frame\<close>; it sets \<^verbatim>\<open>depth(0)\<close>.\<close>

definition Frame_init :: "string \<Rightarrow> cint \<Rightarrow> string \<Rightarrow> cint \<Rightarrow> string \<Rightarrow> Frame" where
  "Frame_init msg c fl ln fn =
     \<lparr>message = msg, code = c, file' = fl, line = ln, function' = fn, depth = 0\<rparr>"

subsection \<open>The exception object\<close>

record ContextualException =
  base_frame :: Frame
  child_frames :: "Frame list"
  error_message :: string

text \<open>
  A \<^verbatim>\<open>const std::exception&\<close> refers either to an object of this class or to some other
  exception, of which the class only ever reads \<^verbatim>\<open>what()\<close>.
\<close>

datatype std_exception = Contextual ContextualException | Other string

text \<open>Dereferencing the null pointer that a failed \<^verbatim>\<open>dynamic_cast\<close> returns.\<close>

datatype fault = NullDereference

subsection \<open>Streaming an \<^verbatim>\<open>int\<close> into an \<^verbatim>\<open>ostringstream\<close>\<close>

text \<open>
  \<^verbatim>\<open>stream << n\<close> on a fresh stream in the classic locale: decimal digits, a leading
  minus sign for a negative value, no padding and no grouping.
\<close>

fun show_nat :: "nat \<Rightarrow> string" where
  "show_nat n =
     (if n < 10 then [''0123456789'' ! n]
      else show_nat (n div 10) @ [''0123456789'' ! (n mod 10)])"

declare show_nat.simps [simp del]

definition show_int :: "int \<Rightarrow> string" where
  "show_int i = (if i < 0 then CHR ''-'' # show_nat (nat (- i)) else show_nat (nat i))"

definition show_cint :: "cint \<Rightarrow> string" where
  "show_cint w = show_int (sint w)"

subsection \<open>Private member functions\<close>

definition GetFrameMessage :: "Frame \<Rightarrow> string" where
  "GetFrameMessage frame =
     (let stream = file' frame @ '':'' @ show_cint (line frame) @ '' | '' @ function' frame
                     @ ''() | '';
          stream = (if 0 \<noteq> code frame
                    then stream @ ''[code='' @ show_cint (code frame) @ ''] ''
                    else stream)
      in stream @ message frame)"

definition SetBaseFrame ::
  "ContextualException \<Rightarrow> string \<Rightarrow> cint \<Rightarrow> string \<Rightarrow> cint \<Rightarrow> string \<Rightarrow> ContextualException" where
  "SetBaseFrame self msg c fl ln fn = self\<lparr>base_frame := Frame_init msg c fl ln fn\<rparr>"

definition AssignErrorMessage :: "ContextualException \<Rightarrow> ContextualException" where
  "AssignErrorMessage self = self\<lparr>error_message := GetFrameMessage (base_frame self)\<rparr>"

text \<open>
  The loop of \<^verbatim>\<open>NormalizeChildDepth\<close>: \<^verbatim>\<open>child_frames_[ii].depth = static_cast<int>(ii) + 1\<close>
  for \<^verbatim>\<open>ii\<close> from the given index up to \<^verbatim>\<open>size_frames\<close>. The cast of a \<^verbatim>\<open>size_t\<close> to
  \<^verbatim>\<open>int\<close> keeps the low 32 bits and the addition is that of the machine.
\<close>

function NormalizeChildDepth_loop :: "nat \<Rightarrow> nat \<Rightarrow> Frame list \<Rightarrow> Frame list" where
  "NormalizeChildDepth_loop ii size_frames frames =
     (if ii < size_frames
      then NormalizeChildDepth_loop (ii + 1) size_frames
             (frames[ii := (frames ! ii)\<lparr>depth := word_of_nat ii + 1\<rparr>])
      else frames)"
  by pat_completeness auto
termination
  by (relation "measure (\<lambda>(ii, size_frames, frames). size_frames - ii)") auto

declare NormalizeChildDepth_loop.simps [simp del]

definition NormalizeChildDepth :: "ContextualException \<Rightarrow> ContextualException" where
  "NormalizeChildDepth self =
     self\<lparr>child_frames :=
       NormalizeChildDepth_loop 0 (length (child_frames self)) (child_frames self)\<rparr>"

definition dynamic_cast :: "std_exception \<Rightarrow> ContextualException option" where
  "dynamic_cast exception =
     (case exception of Contextual e \<Rightarrow> Some e | Other _ \<Rightarrow> None)"

definition IsContextualException :: "std_exception \<Rightarrow> bool" where
  "IsContextualException exception \<longleftrightarrow> dynamic_cast exception \<noteq> None"

text \<open>
  \<^verbatim>\<open>AppendFramesFrom\<close> uses the pointer that the cast returns without testing it:
  \<^verbatim>\<open>emplace_back(origin_exception->base_frame_)\<close>, then the insertion of the origin's
  child frames at the end.
\<close>

definition AppendFramesFrom ::
  "ContextualException \<Rightarrow> std_exception \<Rightarrow> fault + ContextualException" where
  "AppendFramesFrom self exception =
     (case dynamic_cast exception of
        None \<Rightarrow> Inl NullDereference
      | Some origin_exception \<Rightarrow>
          (let self = self\<lparr>child_frames := child_frames self @ [base_frame origin_exception]\<rparr>
           in Inr (self\<lparr>child_frames :=
                        child_frames self @ child_frames origin_exception\<rparr>)))"

text \<open>
  \<^verbatim>\<open>what()\<close> returns \<^verbatim>\<open>error_message_.c_str()\<close>: read as a C string, the characters
  before the first NUL.
\<close>

definition what :: "ContextualException \<Rightarrow> string" where
  "what self = takeWhile (\<lambda>c. c \<noteq> CHR 0x00) (error_message self)"

text \<open>The virtual call \<^verbatim>\<open>exception.what()\<close> through a \<^verbatim>\<open>std::exception\<close> reference.\<close>

definition std_what :: "std_exception \<Rightarrow> string" where
  "std_what exception = (case exception of Contextual e \<Rightarrow> what e | Other d \<Rightarrow> d)"

definition WrapOtherException :: "ContextualException \<Rightarrow> std_exception \<Rightarrow> ContextualException" where
  "WrapOtherException self exception =
     (let frame = base_frame self
      in if message frame = []
         then self\<lparr>base_frame := frame\<lparr>message := std_what exception\<rparr>\<rparr>
         else (let frame = frame\<lparr>message := message frame @ '', ''\<rparr>;
                   frame = frame\<lparr>message := message frame @ std_what exception\<rparr>
               in self\<lparr>base_frame := frame\<rparr>))"

definition WrapException ::
  "ContextualException \<Rightarrow> std_exception \<Rightarrow> fault + ContextualException" where
  "WrapException self exception =
     (case (if IsContextualException exception
            then AppendFramesFrom self exception
            else Inr (WrapOtherException self exception)) of
        Inl f \<Rightarrow> Inl f
      | Inr self \<Rightarrow> Inr (NormalizeChildDepth self))"

subsection \<open>Constructors\<close>

text \<open>
  \<^verbatim>\<open>ContextualException() {}\<close>: the members are default-initialised and nothing else
  happens; in particular \<^verbatim>\<open>AssignErrorMessage\<close> is not called.
\<close>

definition ContextualException_default :: ContextualException where
  "ContextualException_default =
     \<lparr>base_frame = Frame_default, child_frames = [], error_message = []\<rparr>"

text \<open>\<^verbatim>\<open>ContextualException(message, file, line, function)\<close>\<close>

definition ContextualException_msg ::
  "string \<Rightarrow> string \<Rightarrow> cint \<Rightarrow> string \<Rightarrow> ContextualException" where
  "ContextualException_msg msg fl ln fn =
     (let default_code = 0;
          self = SetBaseFrame ContextualException_default msg default_code fl ln fn
      in AssignErrorMessage self)"

text \<open>\<^verbatim>\<open>ContextualException(message, code, file, line, function)\<close>\<close>

definition ContextualException_code ::
  "string \<Rightarrow> cint \<Rightarrow> string \<Rightarrow> cint \<Rightarrow> string \<Rightarrow> ContextualException" where
  "ContextualException_code msg c fl ln fn =
     (let self = SetBaseFrame ContextualException_default msg c fl ln fn
      in AssignErrorMessage self)"

text \<open>\<^verbatim>\<open>ContextualException(message, exception, file, line, function)\<close>\<close>

definition ContextualException_wrap ::
  "string \<Rightarrow> std_exception \<Rightarrow> string \<Rightarrow> cint \<Rightarrow> string \<Rightarrow> fault + ContextualException" where
  "ContextualException_wrap msg exception fl ln fn =
     (let default_code = 0;
          self = SetBaseFrame ContextualException_default msg default_code fl ln fn
      in case WrapException self exception of
           Inl f \<Rightarrow> Inl f
         | Inr self \<Rightarrow> Inr (AssignErrorMessage self))"

text \<open>\<^verbatim>\<open>ContextualException(message, code, exception, file, line, function)\<close>\<close>

definition ContextualException_wrap_code ::
  "string \<Rightarrow> cint \<Rightarrow> std_exception \<Rightarrow> string \<Rightarrow> cint \<Rightarrow> string \<Rightarrow> fault + ContextualException" where
  "ContextualException_wrap_code msg c exception fl ln fn =
     (let self = SetBaseFrame ContextualException_default msg c fl ln fn
      in case WrapException self exception of
           Inl f \<Rightarrow> Inl f
         | Inr self \<Rightarrow> Inr (AssignErrorMessage self))"

subsection \<open>Public member functions\<close>

definition Message :: "ContextualException \<Rightarrow> string" where
  "Message self = message (base_frame self)"

definition Code :: "ContextualException \<Rightarrow> cint" where
  "Code self = code (base_frame self)"

definition File :: "ContextualException \<Rightarrow> string" where
  "File self = file' (base_frame self)"

definition Line :: "ContextualException \<Rightarrow> cint" where
  "Line self = line (base_frame self)"

definition Function :: "ContextualException \<Rightarrow> string" where
  "Function self = function' (base_frame self)"

text \<open>
  The loop of \<^verbatim>\<open>DetailedErrorMessage\<close>: a newline, four spaces and the rendering of
  \<^verbatim>\<open>child_frames_[ii]\<close> are written to the stream for each index in turn.
\<close>

function DetailedErrorMessage_loop :: "nat \<Rightarrow> nat \<Rightarrow> Frame list \<Rightarrow> string \<Rightarrow> string" where
  "DetailedErrorMessage_loop ii size_frames frames stream =
     (if ii < size_frames
      then DetailedErrorMessage_loop (ii + 1) size_frames frames
             (stream @ (CHR 0x0A # ''    '') @ GetFrameMessage (frames ! ii))
      else stream)"
  by pat_completeness auto
termination
  by (relation "measure (\<lambda>(ii, size_frames, frames, stream). size_frames - ii)") auto

declare DetailedErrorMessage_loop.simps [simp del]

definition DetailedErrorMessage :: "ContextualException \<Rightarrow> string" where
  "DetailedErrorMessage self =
     (let stream = error_message self;
          size_frames = length (child_frames self)
      in DetailedErrorMessage_loop 0 size_frames (child_frames self) stream)"

text \<open>
  \<^verbatim>\<open>AppendException\<close> takes a \<^verbatim>\<open>const ContextualException&\<close> and hands it to
  \<^verbatim>\<open>AppendFramesFrom\<close> as a \<^verbatim>\<open>std::exception\<close>.
\<close>

definition AppendException ::
  "ContextualException \<Rightarrow> ContextualException \<Rightarrow> fault + ContextualException" where
  "AppendException self exception =
     (case AppendFramesFrom self (Contextual exception) of
        Inl f \<Rightarrow> Inl f
      | Inr self \<Rightarrow> Inr (NormalizeChildDepth self))"

subsection \<open>The free functions behind the macros\<close>

definition Make :: "string \<Rightarrow> cint \<Rightarrow> string \<Rightarrow> string \<Rightarrow> ContextualException" where
  "Make fl ln fn msg = ContextualException_msg msg fl ln fn"

definition Make_code :: "string \<Rightarrow> cint \<Rightarrow> string \<Rightarrow> string \<Rightarrow> cint \<Rightarrow> ContextualException" where
  "Make_code fl ln fn msg c = ContextualException_code msg c fl ln fn"

definition Wrap ::
  "string \<Rightarrow> cint \<Rightarrow> string \<Rightarrow> string \<Rightarrow> std_exception \<Rightarrow> fault + ContextualException" where
  "Wrap fl ln fn msg exception = ContextualException_wrap msg exception fl ln fn"

definition Wrap_code ::
  "string \<Rightarrow> cint \<Rightarrow> string \<Rightarrow> string \<Rightarrow> cint \<Rightarrow> std_exception \<Rightarrow> fault + ContextualException" where
  "Wrap_code fl ln fn msg c exception = ContextualException_wrap_code msg c exception fl ln fn"

text \<open>
  \<^verbatim>\<open>SafeChain\<close> works through a pointer. The objects live in a store indexed by address;
  a pointer is an address or null. The function returns the pointer it was given, and
  the store after the call.
\<close>

type_synonym address = nat
type_synonym store = "address \<Rightarrow> ContextualException"

definition SafeChain ::
  "string \<Rightarrow> cint \<Rightarrow> string \<Rightarrow> string \<Rightarrow> address option \<Rightarrow> store
     \<Rightarrow> fault + (address option \<times> store)" where
  "SafeChain fl ln fn msg source_exception_or_null s =
     (case source_exception_or_null of
        None \<Rightarrow> Inr (None, s)
      | Some p \<Rightarrow>
          (let lower_exception = s p;
               s = s(p := ContextualException_msg msg fl ln fn)
           in case AppendException (s p) lower_exception of
                Inl f \<Rightarrow> Inl f
              | Inr e \<Rightarrow> Inr (Some p, s(p := e))))"

definition SafeChain_code ::
  "string \<Rightarrow> cint \<Rightarrow> string \<Rightarrow> string \<Rightarrow> cint \<Rightarrow> address option \<Rightarrow> store
     \<Rightarrow> fault + (address option \<times> store)" where
  "SafeChain_code fl ln fn msg c source_exception_or_null s =
     (case source_exception_or_null of
        None \<Rightarrow> Inr (None, s)
      | Some p \<Rightarrow>
          (let lower_exception = s p;
               s = s(p := ContextualException_code msg c fl ln fn)
           in case AppendException (s p) lower_exception of
                Inl f \<Rightarrow> Inl f
              | Inr e \<Rightarrow> Inr (Some p, s(p := e))))"

text \<open>
  A call \<^verbatim>\<open>self->AppendException(*other)\<close> on two objects of the store: the method
  writes to the object it is called on.
\<close>

definition AppendException_call :: "store \<Rightarrow> address \<Rightarrow> address \<Rightarrow> fault + store" where
  "AppendException_call s self other =
     (case AppendException (s self) (s other) of
        Inl f \<Rightarrow> Inl f
      | Inr e \<Rightarrow> Inr (s(self := e)))"

subsection \<open>Values that the public interface can produce\<close>

text \<open>
  Any of the five constructors, the wrapped exception being foreign or itself such a
  value, followed by any number of \<^verbatim>\<open>AppendException\<close> calls with such values.
\<close>

inductive reachable :: "ContextualException \<Rightarrow> bool" where
  r_default: "reachable ContextualException_default"
| r_msg: "reachable (ContextualException_msg msg fl ln fn)"
| r_code: "reachable (ContextualException_code msg c fl ln fn)"
| r_wrap_other:
    "ContextualException_wrap msg (Other d) fl ln fn = Inr e \<Longrightarrow> reachable e"
| r_wrap_same:
    "reachable origin \<Longrightarrow> ContextualException_wrap msg (Contextual origin) fl ln fn = Inr e
       \<Longrightarrow> reachable e"
| r_wrap_code_other:
    "ContextualException_wrap_code msg c (Other d) fl ln fn = Inr e \<Longrightarrow> reachable e"
| r_wrap_code_same:
    "reachable origin
       \<Longrightarrow> ContextualException_wrap_code msg c (Contextual origin) fl ln fn = Inr e
       \<Longrightarrow> reachable e"
| r_append:
    "reachable self \<Longrightarrow> reachable other \<Longrightarrow> AppendException self other = Inr e
       \<Longrightarrow> reachable e"

text \<open>
  The same values by the constructor they began with: one of the four constructors that
  take arguments (the wrapped exception may be any exception), or the default
  constructor; either followed by any number of \<^verbatim>\<open>AppendException\<close> calls, with any
  exception of this class as the argument.
\<close>

inductive from_arguments :: "ContextualException \<Rightarrow> bool" where
  a_msg: "from_arguments (ContextualException_msg msg fl ln fn)"
| a_code: "from_arguments (ContextualException_code msg c fl ln fn)"
| a_wrap: "ContextualException_wrap msg exception fl ln fn = Inr e \<Longrightarrow> from_arguments e"
| a_wrap_code:
    "ContextualException_wrap_code msg c exception fl ln fn = Inr e \<Longrightarrow> from_arguments e"
| a_append:
    "from_arguments self \<Longrightarrow> AppendException self other = Inr e \<Longrightarrow> from_arguments e"

inductive from_default :: "ContextualException \<Rightarrow> bool" where
  d_default: "from_default ContextualException_default"
| d_append:
    "from_default self \<Longrightarrow> AppendException self other = Inr e \<Longrightarrow> from_default e"

text \<open>Renumbering as \<^verbatim>\<open>NormalizeChildDepth\<close> does it: entry \<open>i\<close> gets depth \<open>i + 1\<close>.\<close>

abbreviation renumber :: "Frame list \<Rightarrow> Frame list" where
  "renumber frames \<equiv>
     map (\<lambda>(i, frame). frame\<lparr>depth := word_of_nat i + 1\<rparr>) (enumerate 0 frames)"

text \<open>
  A caller that builds a long chain through the public interface: each round makes a
  fresh exception and appends the previous result to it twice.
\<close>

fun doubled_chain :: "nat \<Rightarrow> fault + ContextualException" where
  "doubled_chain 0 = Inr (Make ''main.cc'' 1 ''main'' ''failed'')"
| "doubled_chain (Suc n) =
     (case doubled_chain n of
        Inl f \<Rightarrow> Inl f
      | Inr lower \<Rightarrow>
          (case AppendException (Make ''main.cc'' 1 ''main'' ''failed'') lower of
             Inl f \<Rightarrow> Inl f
           | Inr e \<Rightarrow> AppendException e lower))"

section \<open>The loops and the operations in closed form\<close>

lemma NormalizeChildDepth_loop_length:
  "length (NormalizeChildDepth_loop ii n frames) = length frames"
proof (induction ii n frames rule: NormalizeChildDepth_loop.induct)
  case (1 ii n frames)
  then show ?case
    by (subst NormalizeChildDepth_loop.simps) simp
qed

lemma NormalizeChildDepth_loop_nth:
  "n \<le> length frames \<Longrightarrow> j < length frames \<Longrightarrow>
   NormalizeChildDepth_loop ii n frames ! j =
     (if ii \<le> j \<and> j < n then (frames ! j)\<lparr>depth := word_of_nat j + 1\<rparr> else frames ! j)"
proof (induction ii n frames rule: NormalizeChildDepth_loop.induct)
  case (1 ii n frames)
  show ?case
  proof (cases "ii < n")
    case True
    with "1.prems" "1.IH" show ?thesis
      by (subst NormalizeChildDepth_loop.simps) (auto simp: nth_list_update)
  next
    case False
    then show ?thesis
      by (subst NormalizeChildDepth_loop.simps) auto
  qed
qed

lemma NormalizeChildDepth_loop_renumber:
  "NormalizeChildDepth_loop 0 (length frames) frames = renumber frames"
  by (rule nth_equalityI)
     (simp_all add: NormalizeChildDepth_loop_length NormalizeChildDepth_loop_nth nth_enumerate_eq)

lemma child_frames_NormalizeChildDepth:
  "child_frames (NormalizeChildDepth self) = renumber (child_frames self)"
  by (simp add: NormalizeChildDepth_def NormalizeChildDepth_loop_renumber)

lemma DetailedErrorMessage_loop_concat:
  "n = length frames \<Longrightarrow> ii \<le> n \<Longrightarrow>
   DetailedErrorMessage_loop ii n frames stream =
     stream @ concat (map (\<lambda>frame. (CHR 0x0A # ''    '') @ GetFrameMessage frame) (drop ii frames))"
proof (induction ii n frames stream rule: DetailedErrorMessage_loop.induct)
  case (1 ii n frames stream)
  show ?case
  proof (cases "ii < n")
    case True
    with "1.prems" have "drop ii frames = frames ! ii # drop (Suc ii) frames"
      by (simp add: Cons_nth_drop_Suc)
    with True "1.prems" "1.IH" show ?thesis
      by (subst DetailedErrorMessage_loop.simps) simp
  next
    case False
    with "1.prems" show ?thesis
      by (subst DetailedErrorMessage_loop.simps) simp
  qed
qed

lemma GetFrameMessage_depth: "GetFrameMessage (frame\<lparr>depth := d\<rparr>) = GetFrameMessage frame"
  by (simp add: GetFrameMessage_def Let_def)


lemma NormalizeChildDepth_eq:
  "NormalizeChildDepth self = self\<lparr>child_frames := renumber (child_frames self)\<rparr>"
  by (simp add: NormalizeChildDepth_def NormalizeChildDepth_loop_renumber)

lemma renumber_append_renumber:
  "renumber (renumber xs @ ys) = renumber (xs @ ys)"
  by (rule nth_equalityI) (auto simp: nth_enumerate_eq nth_append)

lemma AppendFramesFrom_Contextual:
  "AppendFramesFrom self (Contextual origin) =
     Inr (self\<lparr>child_frames := child_frames self @ base_frame origin # child_frames origin\<rparr>)"
  by (simp add: AppendFramesFrom_def dynamic_cast_def)

lemma AppendFramesFrom_Other: "AppendFramesFrom self (Other d) = Inl NullDereference"
  by (simp add: AppendFramesFrom_def dynamic_cast_def)

lemma AppendException_eq:
  "AppendException self other =
     Inr (self\<lparr>child_frames :=
            renumber (child_frames self @ base_frame other # child_frames other)\<rparr>)"
  by (simp add: AppendException_def AppendFramesFrom_Contextual NormalizeChildDepth_eq)

lemma WrapException_Contextual:
  "WrapException self (Contextual origin) =
     Inr (self\<lparr>child_frames :=
            renumber (child_frames self @ base_frame origin # child_frames origin)\<rparr>)"
  by (simp add: WrapException_def IsContextualException_def dynamic_cast_def
        AppendFramesFrom_Contextual NormalizeChildDepth_eq)

lemma WrapException_Other:
  "WrapException self (Other d) =
     Inr (self\<lparr>base_frame := (base_frame self)
                  \<lparr>message := (if message (base_frame self) = [] then d
                               else message (base_frame self) @ '', '' @ d)\<rparr>,
               child_frames := renumber (child_frames self)\<rparr>)"
  by (simp add: WrapException_def IsContextualException_def dynamic_cast_def
        WrapOtherException_def std_what_def NormalizeChildDepth_eq Let_def)

lemma ContextualException_wrap_code_Contextual:
  "ContextualException_wrap_code msg c (Contextual origin) fl ln fn =
     Inr \<lparr>base_frame = Frame_init msg c fl ln fn,
          child_frames = renumber (base_frame origin # child_frames origin),
          error_message = GetFrameMessage (Frame_init msg c fl ln fn)\<rparr>"
  by (simp add: ContextualException_wrap_code_def SetBaseFrame_def WrapException_Contextual
        AssignErrorMessage_def ContextualException_default_def)

lemma ContextualException_wrap_Contextual:
  "ContextualException_wrap msg (Contextual origin) fl ln fn =
     Inr \<lparr>base_frame = Frame_init msg 0 fl ln fn,
          child_frames = renumber (base_frame origin # child_frames origin),
          error_message = GetFrameMessage (Frame_init msg 0 fl ln fn)\<rparr>"
  by (simp add: ContextualException_wrap_def SetBaseFrame_def WrapException_Contextual
        AssignErrorMessage_def ContextualException_default_def)

lemma ContextualException_wrap_code_Other:
  "ContextualException_wrap_code msg c (Other d) fl ln fn =
     Inr \<lparr>base_frame = Frame_init (if msg = [] then d else msg @ '', '' @ d) c fl ln fn,
          child_frames = [],
          error_message =
            GetFrameMessage (Frame_init (if msg = [] then d else msg @ '', '' @ d) c fl ln fn)\<rparr>"
  by (simp add: ContextualException_wrap_code_def SetBaseFrame_def WrapException_Other
        AssignErrorMessage_def ContextualException_default_def Frame_init_def)

lemma ContextualException_wrap_Other:
  "ContextualException_wrap msg (Other d) fl ln fn =
     Inr \<lparr>base_frame = Frame_init (if msg = [] then d else msg @ '', '' @ d) 0 fl ln fn,
          child_frames = [],
          error_message =
            GetFrameMessage (Frame_init (if msg = [] then d else msg @ '', '' @ d) 0 fl ln fn)\<rparr>"
  by (simp add: ContextualException_wrap_def SetBaseFrame_def WrapException_Other
        AssignErrorMessage_def ContextualException_default_def Frame_init_def)

lemma ContextualException_code_eq:
  "ContextualException_code msg c fl ln fn =
     \<lparr>base_frame = Frame_init msg c fl ln fn, child_frames = [],
      error_message = GetFrameMessage (Frame_init msg c fl ln fn)\<rparr>"
  by (simp add: ContextualException_code_def SetBaseFrame_def AssignErrorMessage_def
        ContextualException_default_def)

lemma ContextualException_msg_eq:
  "ContextualException_msg msg fl ln fn =
     \<lparr>base_frame = Frame_init msg 0 fl ln fn, child_frames = [],
      error_message = GetFrameMessage (Frame_init msg 0 fl ln fn)\<rparr>"
  by (simp add: ContextualException_msg_def SetBaseFrame_def AssignErrorMessage_def
        ContextualException_default_def)

lemma DetailedErrorMessage_eq:
  "DetailedErrorMessage self =
     error_message self @
     concat (map (\<lambda>frame. (CHR 0x0A # ''    '') @ GetFrameMessage frame) (child_frames self))"
  by (simp add: DetailedErrorMessage_def DetailedErrorMessage_loop_concat)

lemma map_GetFrameMessage_renumber:
  "map (\<lambda>frame. (CHR 0x0A # ''    '') @ GetFrameMessage frame) (renumber frames) =
   map (\<lambda>frame. (CHR 0x0A # ''    '') @ GetFrameMessage frame) frames"
  by (rule nth_equalityI) (simp_all add: nth_enumerate_eq GetFrameMessage_depth)

lemma show_nat_0: "show_nat 0 = ''0''"
  by (simp add: show_nat.simps)

text \<open>The digits that \<open>show_nat\<close> writes are the decimal representation of its argument.\<close>

lemma digit_value: "d < 10 \<Longrightarrow> of_char (''0123456789'' ! d) = (48::nat) + d"
proof -
  assume "d < 10"
  then have "d = 0 \<or> d = 1 \<or> d = 2 \<or> d = 3 \<or> d = 4 \<or> d = 5 \<or> d = 6 \<or> d = 7
    \<or> d = 8 \<or> d = 9" by arith
  then show ?thesis by (elim disjE) simp_all
qed

lemma show_nat_decimal:
  "foldl (\<lambda>acc ch. 10 * acc + (of_char ch - 48)) 0 (show_nat n) = n"
proof (induction n rule: show_nat.induct)
  case (1 n)
  show ?case
  proof (cases "n < 10")
    case True
    then show ?thesis by (subst show_nat.simps) (simp add: digit_value)
  next
    case False
    with "1.IH" show ?thesis
      by (subst show_nat.simps) (simp add: digit_value)
  qed
qed

lemma SafeChain_Some:
  "SafeChain fl ln fn msg (Some p) s =
     Inr (Some p,
          s(p := \<lparr>base_frame = Frame_init msg 0 fl ln fn,
                   child_frames = renumber (base_frame (s p) # child_frames (s p)),
                   error_message = GetFrameMessage (Frame_init msg 0 fl ln fn)\<rparr>))"
  by (simp add: SafeChain_def AppendException_eq ContextualException_msg_eq Let_def)

lemma SafeChain_code_Some:
  "SafeChain_code fl ln fn msg c (Some p) s =
     Inr (Some p,
          s(p := \<lparr>base_frame = Frame_init msg c fl ln fn,
                   child_frames = renumber (base_frame (s p) # child_frames (s p)),
                   error_message = GetFrameMessage (Frame_init msg c fl ln fn)\<rparr>))"
  by (simp add: SafeChain_code_def AppendException_eq ContextualException_code_eq Let_def)

lemma SafeChain_reachable:
  assumes "reachable (s p)" and "SafeChain fl ln fn msg (Some p) s = Inr (q, s')"
  shows "reachable (s' p)"
proof -
  have a: "AppendException (ContextualException_msg msg fl ln fn) (s p) =
             Inr \<lparr>base_frame = Frame_init msg 0 fl ln fn,
                  child_frames = renumber (base_frame (s p) # child_frames (s p)),
                  error_message = GetFrameMessage (Frame_init msg 0 fl ln fn)\<rparr>"
    by (simp add: AppendException_eq ContextualException_msg_eq)
  from assms(2) have "s' p = \<lparr>base_frame = Frame_init msg 0 fl ln fn,
                  child_frames = renumber (base_frame (s p) # child_frames (s p)),
                  error_message = GetFrameMessage (Frame_init msg 0 fl ln fn)\<rparr>"
    by (auto simp: SafeChain_Some)
  with reachable.r_append [OF reachable.r_msg assms(1) a] show ?thesis by simp
qed

section \<open>Invariants of the values the interface produces\<close>

lemma renumber_idem: "renumber (renumber xs) = renumber xs"
  using renumber_append_renumber [of xs "[]"] by simp

lemma renumber_nth_depth:
  "i < length xs \<Longrightarrow> depth (renumber xs ! i) = word_of_nat i + 1"
  by (simp add: nth_enumerate_eq)

lemma reachable_depths:
  "reachable e \<Longrightarrow> depth (base_frame e) = 0 \<and> child_frames e = renumber (child_frames e)"
proof (induction rule: reachable.induct)
  case r_default
  show ?case by (simp add: ContextualException_default_def Frame_default_def)
next
  case (r_msg msg fl ln fn)
  show ?case by (simp add: ContextualException_msg_eq Frame_init_def)
next
  case (r_code msg c fl ln fn)
  show ?case by (simp add: ContextualException_code_eq Frame_init_def)
next
  case (r_wrap_other msg d fl ln fn e)
  then show ?case by (auto simp: ContextualException_wrap_Other Frame_init_def)
next
  case (r_wrap_same origin msg fl ln fn e)
  from r_wrap_same.hyps(2) show ?case
    by (auto simp: ContextualException_wrap_Contextual Frame_init_def renumber_idem
          simp del: enumerate_simps map_eq_conv)
next
  case (r_wrap_code_other msg c d fl ln fn e)
  then show ?case by (auto simp: ContextualException_wrap_code_Other Frame_init_def)
next
  case (r_wrap_code_same origin msg c fl ln fn e)
  from r_wrap_code_same.hyps(2) show ?case
    by (auto simp: ContextualException_wrap_code_Contextual Frame_init_def renumber_idem
          simp del: enumerate_simps map_eq_conv)
next
  case (r_append self other e)
  from r_append.hyps(3) r_append.IH(1) show ?case
    by (auto simp: AppendException_eq renumber_idem simp del: enumerate_simps map_eq_conv)
qed

lemma sint_depth_small:
  "i + 1 < 2 ^ 31 \<Longrightarrow> sint (word_of_nat i + 1 :: cint) = int i + 1"
proof -
  assume b: "i + 1 < 2 ^ 31"
  have A: "(word_of_nat i + 1 :: cint) = word_of_int (int i + 1)" by simp
  have B: "sint (word_of_int k :: cint) = signed_take_bit (31::nat) k" for k
    by (subst sint_sbintrunc') simp
  have C: "signed_take_bit (31::nat) (int i + 1) = int i + 1"
    using b by (intro signed_take_bit_int_eq_self) simp_all
  show ?thesis by (simp only: A B C)
qed

lemma reachable_Make: "reachable (Make fl ln fn msg)"
  by (simp add: Make_def reachable.r_msg)

lemma doubled_chain_reachable:
  "\<exists>e. doubled_chain n = Inr e \<and> reachable e \<and> length (child_frames e) = 2 ^ (n + 1) - 2"
proof (induction n)
  case 0
  have "reachable (Make ''main.cc'' 1 ''main'' ''failed'')"
    by (rule reachable_Make)
  moreover have "child_frames (Make ''main.cc'' 1 ''main'' ''failed'') = []"
    by (simp add: Make_def ContextualException_msg_eq)
  ultimately show ?case by simp
next
  case (Suc n)
  then obtain lower where lower: "doubled_chain n = Inr lower" "reachable lower"
    "length (child_frames lower) = 2 ^ (n + 1) - 2" by blast
  define fresh where "fresh = Make ''main.cc'' 1 ''main'' ''failed''"
  obtain e1 where e1: "AppendException fresh lower = Inr e1"
    by (simp add: AppendException_eq)
  obtain e2 where e2: "AppendException e1 lower = Inr e2"
    by (simp add: AppendException_eq)
  have "reachable fresh" by (simp add: fresh_def reachable_Make)
  then have r1: "reachable e1" using lower(2) e1 by (rule reachable.r_append)
  then have r2: "reachable e2" using lower(2) e2 by (rule reachable.r_append)
  have "length (child_frames e1) = 1 + length (child_frames lower)"
    using e1 by (auto simp: AppendException_eq fresh_def Make_def ContextualException_msg_eq)
  moreover have "length (child_frames e2) = length (child_frames e1) + 1 + length (child_frames lower)"
    using e2 by (auto simp: AppendException_eq)
  ultimately have "length (child_frames e2) = 2 * (2 ^ (n + 1) - 2) + 2"
    using lower(3) by simp
  moreover have "2 * (2 * x - 2) + 2 = 2 * (2 * x) - (2::nat)" if "1 \<le> x" for x
    using that by arith
  from this [of "2 ^ n"] have "2 * (2 ^ (n + 1) - 2) + 2 = 2 ^ (Suc n + 1) - (2::nat)"
    by simp
  ultimately have "length (child_frames e2) = 2 ^ (Suc n + 1) - 2"
    by simp
  moreover have "doubled_chain (Suc n) = Inr e2"
    using lower(1) e1 e2 by (simp add: fresh_def)
  ultimately show ?case using r2 by blast
qed

lemma from_arguments_error_message:
  "from_arguments e \<Longrightarrow> error_message e = GetFrameMessage (base_frame e)"
proof (induction rule: from_arguments.induct)
  case (a_msg msg fl ln fn)
  show ?case by (simp add: ContextualException_msg_eq)
next
  case (a_code msg c fl ln fn)
  show ?case by (simp add: ContextualException_code_eq)
next
  case (a_wrap msg exception fl ln fn e)
  then show ?case
    by (cases exception)
       (auto simp: ContextualException_wrap_Contextual ContextualException_wrap_Other)
next
  case (a_wrap_code msg c exception fl ln fn e)
  then show ?case
    by (cases exception)
       (auto simp: ContextualException_wrap_code_Contextual ContextualException_wrap_code_Other)
next
  case (a_append self other e)
  from a_append.hyps(2) a_append.IH show ?case
    by (auto simp: AppendException_eq)
qed

lemma from_default_state:
  "from_default e \<Longrightarrow> error_message e = [] \<and> base_frame e = Frame_default"
proof (induction rule: from_default.induct)
  case d_default
  show ?case by (simp add: ContextualException_default_def)
next
  case (d_append self other e)
  from d_append.hyps(2) d_append.IH show ?case
    by (auto simp: AppendException_eq)
qed

lemma reachable_origin: "reachable e \<Longrightarrow> from_arguments e \<or> from_default e"
proof (induction rule: reachable.induct)
  case r_default
  show ?case by (simp add: from_default.d_default)
next
  case (r_msg msg fl ln fn)
  show ?case by (simp add: from_arguments.a_msg)
next
  case (r_code msg c fl ln fn)
  show ?case by (simp add: from_arguments.a_code)
next
  case (r_wrap_other msg d fl ln fn e)
  then show ?case by (blast intro: from_arguments.a_wrap)
next
  case (r_wrap_same origin msg fl ln fn e)
  then show ?case by (blast intro: from_arguments.a_wrap)
next
  case (r_wrap_code_other msg c d fl ln fn e)
  then show ?case by (blast intro: from_arguments.a_wrap_code)
next
  case (r_wrap_code_same origin msg c fl ln fn e)
  then show ?case by (blast intro: from_arguments.a_wrap_code)
next
  case (r_append self other e)
  then show ?case
    by (blast intro: from_arguments.a_append from_default.d_append)
qed

lemma wrap_caches:
  "\<exists>w. ContextualException_wrap msg exception fl ln fn = Inr w \<and>
       error_message w = GetFrameMessage (base_frame w)"
  by (cases exception)
     (simp_all add: ContextualException_wrap_Contextual ContextualException_wrap_Other)

lemma wrap_code_caches:
  "\<exists>w. ContextualException_wrap_code msg c exception fl ln fn = Inr w \<and>
       error_message w = GetFrameMessage (base_frame w)"
  by (cases exception)
     (simp_all add: ContextualException_wrap_code_Contextual ContextualException_wrap_code_Other)

lemma show_nat_5: "show_nat 5 = ''5''"
  by (simp add: show_nat.simps)

lemma show_nat_10: "show_nat 10 = ''10''"
  by (simp add: show_nat.simps)

lemma show_nat_digits: "set (show_nat n) \<subseteq> set ''0123456789''"
proof (induction n rule: show_nat.induct)
  case (1 n)
  have d: "''0123456789'' ! k \<in> set ''0123456789''" if "k < 10" for k
    using that by (intro nth_mem) simp
  show ?case
  proof (cases "n < 10")
    case True
    with d [of n] show ?thesis by (subst show_nat.simps) simp
  next
    case False
    with "1.IH" d [of "n mod 10"] show ?thesis by (subst show_nat.simps) simp
  qed
qed

lemma newline_show_cint: "CHR 0x0A \<notin> set (show_cint w)"
  using show_nat_digits [of "nat (sint w)"] show_nat_digits [of "nat (- sint w)"]
  by (auto simp: show_cint_def show_int_def)

lemma newline_GetFrameMessage:
  "CHR 0x0A \<notin> set (message frame @ file' frame @ function' frame)
     \<Longrightarrow> CHR 0x0A \<notin> set (GetFrameMessage frame)"
  using newline_show_cint [of "line frame"] newline_show_cint [of "code frame"]
  by (simp add: GetFrameMessage_def Let_def)

lemma newlines_of_lines:
  "\<forall>frame \<in> set frames. CHR 0x0A \<notin> set (message frame @ file' frame @ function' frame)
     \<Longrightarrow> length (filter (\<lambda>ch. ch = CHR 0x0A)
           (concat (map (\<lambda>frame. (CHR 0x0A # ''    '') @ GetFrameMessage frame) frames))) =
         length frames"
proof (induction frames)
  case Nil
  show ?case by simp
next
  case (Cons frame frames)
  then have "CHR 0x0A \<notin> set (GetFrameMessage frame)"
    by (intro newline_GetFrameMessage) simp
  then have "filter (\<lambda>ch. ch = CHR 0x0A) (GetFrameMessage frame) = []"
    by (auto simp: filter_empty_conv)
  with Cons show ?case by simp
qed

lemma wrapped_lines:
  assumes "e = \<lparr>base_frame = base, child_frames = renumber (base_frame F # child_frames F),
                 error_message = GetFrameMessage base\<rparr>"
  shows "DetailedErrorMessage e =
           GetFrameMessage base @
           concat (map (\<lambda>frame. (CHR 0x0A # ''    '') @ GetFrameMessage frame)
                     (base_frame F # child_frames F))"
    and "\<forall>frame \<in> set (base # base_frame F # child_frames F).
            CHR 0x0A \<notin> set (message frame @ file' frame @ function' frame)
         \<Longrightarrow> length (filter (\<lambda>ch. ch = CHR 0x0A) (DetailedErrorMessage e)) + 1 =
               1 + 1 + length (child_frames F)"
proof -
  show d: "DetailedErrorMessage e =
           GetFrameMessage base @
           concat (map (\<lambda>frame. (CHR 0x0A # ''    '') @ GetFrameMessage frame)
                     (base_frame F # child_frames F))"
    unfolding DetailedErrorMessage_eq assms
    by (simp only: ContextualException.simps map_GetFrameMessage_renumber)
  assume n: "\<forall>frame \<in> set (base # base_frame F # child_frames F).
            CHR 0x0A \<notin> set (message frame @ file' frame @ function' frame)"
  then have "CHR 0x0A \<notin> set (GetFrameMessage base)"
    by (intro newline_GetFrameMessage) simp
  then have "filter (\<lambda>ch. ch = CHR 0x0A) (GetFrameMessage base) = []"
    by (auto simp: filter_empty_conv)
  moreover from n have "length (filter (\<lambda>ch. ch = CHR 0x0A)
           (concat (map (\<lambda>frame. (CHR 0x0A # ''    '') @ GetFrameMessage frame)
              (base_frame F # child_frames F)))) = length (base_frame F # child_frames F)"
    by (intro newlines_of_lines) simp
  ultimately show "length (filter (\<lambda>ch. ch = CHR 0x0A) (DetailedErrorMessage e)) + 1 =
               1 + 1 + length (child_frames F)"
    unfolding d by simp
qed

section \<open>The claims\<close>



text \<open>
  C2, as amended. For every value that the public interface can produce, the base
  frame's depth is 0 and the child frame at index \<open>i\<close> holds \<^verbatim>\<open>static_cast<int>(i) + 1\<close>;
  read as an integer this is \<open>i + 1\<close> at every index with \<open>i + 1 < 2^31\<close>, the range of
  the 32-bit \<^verbatim>\<open>int\<close> that stores it.
\<close>

theorem child_depths:
  "reachable e \<Longrightarrow>
   depth (base_frame e) = 0 \<and>
   (\<forall>i < length (child_frames e).
      depth (child_frames e ! i) = word_of_nat i + 1 \<and>
      (i + 1 < 2 ^ 31 \<longrightarrow> sint (depth (child_frames e ! i)) = int i + 1))"
proof -
  assume r: "reachable e"
  then have b: "depth (base_frame e) = 0" and c: "child_frames e = renumber (child_frames e)"
    using reachable_depths by blast+
  have "depth (child_frames e ! i) = word_of_nat i + 1" if "i < length (child_frames e)" for i
    using renumber_nth_depth [OF that] c by simp
  with b show ?thesis
    by (simp add: sint_depth_small)
qed

text \<open>
  The amended C2 at the exception \<open>main.cc:5\<close> with \<open>db.cc:10\<close> appended: it is
  reachable, and its one child frame has depth 1.
\<close>

theorem child_depths_witness:
  "(case AppendException (Make ''main.cc'' 5 ''Main'' ''init failed'')
           (Make ''db.cc'' 10 ''Open'' ''open failed'') of
      Inl _ \<Rightarrow> False
    | Inr e \<Rightarrow>
        reachable e \<and> depth (base_frame e) = 0 \<and> length (child_frames e) = 1 \<and>
        depth (child_frames e ! 0) = 1 \<and> sint (depth (child_frames e ! 0)) = 1)"
proof -
  obtain e where e: "AppendException (Make ''main.cc'' 5 ''Main'' ''init failed'')
           (Make ''db.cc'' 10 ''Open'' ''open failed'') = Inr e"
    by (simp add: AppendException_eq)
  have r: "reachable e"
    by (rule reachable.r_append [OF reachable_Make reachable_Make e])
  have len: "length (child_frames e) = 1"
    using e by (auto simp: AppendException_eq Make_def ContextualException_msg_eq)
  from child_depths [OF r] len e r show ?thesis by simp
qed

text \<open>
  C2 as stated fails. After 31 rounds of doubling the chain has \<open>2^32 - 2\<close> child
  frames; the one at index \<open>2^31 - 1\<close> cannot hold \<open>2^31\<close> in its \<^verbatim>\<open>int\<close> depth.
\<close>

theorem child_depths_counterexample:
  "(case doubled_chain 31 of
      Inl _ \<Rightarrow> False
    | Inr e \<Rightarrow>
        reachable e \<and> 2147483647 < length (child_frames e) \<and>
        sint (depth (child_frames e ! 2147483647)) \<noteq> int 2147483647 + 1)"
proof -
  obtain e where e: "doubled_chain 31 = Inr e" "reachable e"
    "length (child_frames e) = 2 ^ (31 + 1) - 2"
    using doubled_chain_reachable [of 31] by blast
  from e(3) have len: "2147483647 < length (child_frames e)" by simp
  from e(2) have "child_frames e = renumber (child_frames e)"
    using reachable_depths by blast
  then have "depth (child_frames e ! 2147483647) = word_of_nat 2147483647 + 1"
    using renumber_nth_depth [OF len] by simp
  then have "sint (depth (child_frames e ! 2147483647)) = - 2147483648"
    by simp
  with e(1,2) len show ?thesis by simp
qed

text \<open>
  C3. \<^verbatim>\<open>GetFrameMessage\<close> renders a frame as file, colon, line, \<open>" | "\<close>, function,
  \<open>"() | "\<close>, then \<open>"[code=<code>] "\<close> exactly when the code is not 0, then the
  message; an exception made from \<open>("disk full", 28, "io.cc", 42, "Flush")\<close> renders as
  \<open>"io.cc:42 | Flush() | [code=28] disk full"\<close>, both as \<^verbatim>\<open>what()\<close> and as the
  rendering of its base frame.
\<close>

theorem render_summary:
  "GetFrameMessage frame =
     file' frame @ '':'' @ show_cint (line frame) @ '' | '' @ function' frame @ ''() | ''
       @ (if code frame \<noteq> 0 then ''[code='' @ show_cint (code frame) @ ''] '' else [])
       @ message frame \<and>
   what (Make_code ''io.cc'' 42 ''Flush'' ''disk full'' 28) =
     ''io.cc:42 | Flush() | [code=28] disk full'' \<and>
   GetFrameMessage (base_frame (Make_code ''io.cc'' 42 ''Flush'' ''disk full'' 28)) =
     ''io.cc:42 | Flush() | [code=28] disk full''"
  by (simp add: GetFrameMessage_def Let_def Make_code_def ContextualException_code_eq
        Frame_init_def what_def show_cint_def show_int_def show_nat.simps)

text \<open>
  C4, as amended. \<^verbatim>\<open>DetailedErrorMessage\<close> of any value is its cached rendering
  followed, for each child frame in order, by a newline, four spaces and that frame's
  rendering. Each of the four constructors that take arguments leaves the cached
  rendering equal to the rendering of the base frame; the default constructor leaves it
  empty, with the default base frame; \<^verbatim>\<open>AppendException\<close> keeps both the cached rendering
  and the base frame. Hence the first line is the rendering of the base frame for every
  value that began with a constructor taking arguments, and is empty for every value that
  began with the default constructor; every value the public interface can produce is of
  one of the two kinds. With \<open>E1\<close> made at \<open>db.cc:10\<close> and appended to \<open>E2\<close> made at
  \<open>main.cc:5\<close>, the detailed message of \<open>E2\<close> is \<open>"main.cc:5 | Main() | init failed"\<close>,
  a newline and \<open>"    db.cc:10 | Open() | open failed"\<close>.
\<close>

theorem detailed_message:
  "DetailedErrorMessage e =
     error_message e @
     concat (map (\<lambda>frame. (CHR 0x0A # ''    '') @ GetFrameMessage frame) (child_frames e)) \<and>
   error_message (ContextualException_msg msg fl ln fn) =
     GetFrameMessage (base_frame (ContextualException_msg msg fl ln fn)) \<and>
   error_message (ContextualException_code msg c fl ln fn) =
     GetFrameMessage (base_frame (ContextualException_code msg c fl ln fn)) \<and>
   (\<exists>w. ContextualException_wrap msg exception fl ln fn = Inr w \<and>
        error_message w = GetFrameMessage (base_frame w)) \<and>
   (\<exists>w. ContextualException_wrap_code msg c exception fl ln fn = Inr w \<and>
        error_message w = GetFrameMessage (base_frame w)) \<and>
   error_message ContextualException_default = [] \<and>
   base_frame ContextualException_default = Frame_default \<and>
   (\<exists>e'. AppendException e other = Inr e' \<and>
         error_message e' = error_message e \<and> base_frame e' = base_frame e) \<and>
   (from_arguments e \<longrightarrow>
      DetailedErrorMessage e =
        GetFrameMessage (base_frame e) @
        concat (map (\<lambda>frame. (CHR 0x0A # ''    '') @ GetFrameMessage frame) (child_frames e))) \<and>
   (from_default e \<longrightarrow>
      base_frame e = Frame_default \<and>
      DetailedErrorMessage e =
        concat (map (\<lambda>frame. (CHR 0x0A # ''    '') @ GetFrameMessage frame) (child_frames e))) \<and>
   (reachable e \<longrightarrow> from_arguments e \<or> from_default e) \<and>
   (\<exists>E2. AppendException (Make ''main.cc'' 5 ''Main'' ''init failed'')
            (Make ''db.cc'' 10 ''Open'' ''open failed'') = Inr E2 \<and>
         DetailedErrorMessage E2 =
           ''main.cc:5 | Main() | init failed'' @
           (CHR 0x0A # ''    db.cc:10 | Open() | open failed''))"
proof -
  have ex: "DetailedErrorMessage
          ((Make ''main.cc'' 5 ''Main'' ''init failed'')
             \<lparr>child_frames := renumber [base_frame (Make ''db.cc'' 10 ''Open'' ''open failed'')]\<rparr>) =
        ''main.cc:5 | Main() | init failed'' @
        (CHR 0x0A # ''    db.cc:10 | Open() | open failed'')"
    by (simp add: DetailedErrorMessage_eq Make_def ContextualException_msg_eq
          GetFrameMessage_def Frame_init_def show_cint_def show_int_def show_nat_5 show_nat_10)
  have E2: "\<exists>E2. AppendException (Make ''main.cc'' 5 ''Main'' ''init failed'')
            (Make ''db.cc'' 10 ''Open'' ''open failed'') = Inr E2 \<and>
         DetailedErrorMessage E2 =
           ''main.cc:5 | Main() | init failed'' @
           (CHR 0x0A # ''    db.cc:10 | Open() | open failed'')"
    using ex by (simp add: AppendException_eq Make_def ContextualException_msg_eq)
  have ctor: "error_message (ContextualException_msg msg fl ln fn) =
       GetFrameMessage (base_frame (ContextualException_msg msg fl ln fn))"
    "error_message (ContextualException_code msg c fl ln fn) =
       GetFrameMessage (base_frame (ContextualException_code msg c fl ln fn))"
    "error_message ContextualException_default = []"
    "base_frame ContextualException_default = Frame_default"
    by (simp_all add: ContextualException_msg_eq ContextualException_code_eq
          ContextualException_default_def)
  have keep: "\<exists>e'. AppendException e other = Inr e' \<and>
         error_message e' = error_message e \<and> base_frame e' = base_frame e"
    by (simp add: AppendException_eq)
  have a: "from_arguments e \<longrightarrow>
      DetailedErrorMessage e =
        GetFrameMessage (base_frame e) @
        concat (map (\<lambda>frame. (CHR 0x0A # ''    '') @ GetFrameMessage frame) (child_frames e))"
    using from_arguments_error_message [of e] by (simp add: DetailedErrorMessage_eq)
  have d: "from_default e \<longrightarrow>
      base_frame e = Frame_default \<and>
      DetailedErrorMessage e =
        concat (map (\<lambda>frame. (CHR 0x0A # ''    '') @ GetFrameMessage frame) (child_frames e))"
    using from_default_state [of e] by (simp add: DetailedErrorMessage_eq)
  have r: "reachable e \<longrightarrow> from_arguments e \<or> from_default e"
    using reachable_origin [of e] by blast
  from DetailedErrorMessage_eq [of e] ctor wrap_caches [of msg exception fl ln fn]
    wrap_code_caches [of msg c exception fl ln fn] keep a d r E2
  show ?thesis by blast
qed

text \<open>
  The amended C4 at \<open>main.cc:5\<close> wrapping the exception \<open>db.cc:10\<close>, which began with
  a constructor taking arguments and renders as the two lines, and at a default-constructed
  exception with \<open>db.cc:10\<close> appended, whose first line is empty.
\<close>

theorem detailed_message_witness:
  "(case Wrap ''main.cc'' 5 ''Main'' ''init failed''
           (Contextual (Make ''db.cc'' 10 ''Open'' ''open failed'')) of
      Inl _ \<Rightarrow> False
    | Inr e \<Rightarrow>
        from_arguments e \<and>
        DetailedErrorMessage e =
          ''main.cc:5 | Main() | init failed'' @
          (CHR 0x0A # ''    db.cc:10 | Open() | open failed'')) \<and>
   (case AppendException ContextualException_default
           (Make ''db.cc'' 10 ''Open'' ''open failed'') of
      Inl _ \<Rightarrow> False
    | Inr e \<Rightarrow>
        from_default e \<and>
        DetailedErrorMessage e = CHR 0x0A # ''    db.cc:10 | Open() | open failed'')"
proof -
  define e where "e =
    \<lparr>base_frame = Frame_init ''init failed'' 0 ''main.cc'' 5 ''Main'',
     child_frames = renumber [base_frame (Make ''db.cc'' 10 ''Open'' ''open failed'')],
     error_message = GetFrameMessage (Frame_init ''init failed'' 0 ''main.cc'' 5 ''Main'')\<rparr>"
  have w: "ContextualException_wrap ''init failed''
             (Contextual (Make ''db.cc'' 10 ''Open'' ''open failed'')) ''main.cc'' 5 ''Main'' = Inr e"
    by (simp add: e_def ContextualException_wrap_Contextual Make_def ContextualException_msg_eq)
  have r: "from_arguments e"
    by (rule from_arguments.a_wrap [OF w])
  have m: "GetFrameMessage (base_frame e) = ''main.cc:5 | Main() | init failed''"
    by (simp add: e_def GetFrameMessage_def Frame_init_def show_cint_def show_int_def show_nat_5)
  have c: "map (\<lambda>frame. (CHR 0x0A # ''    '') @ GetFrameMessage frame) (child_frames e) =
             [CHR 0x0A # ''    db.cc:10 | Open() | open failed'']"
    by (simp add: e_def Make_def ContextualException_msg_eq GetFrameMessage_def Frame_init_def
          show_cint_def show_int_def show_nat_10)
  from detailed_message [of e] r have
    "DetailedErrorMessage e =
       GetFrameMessage (base_frame e) @
       concat (map (\<lambda>frame. (CHR 0x0A # ''    '') @ GetFrameMessage frame) (child_frames e))"
    by blast
  with m c have first: "DetailedErrorMessage e =
          ''main.cc:5 | Main() | init failed'' @
          (CHR 0x0A # ''    db.cc:10 | Open() | open failed'')"
    by simp
  define g where "g =
    ContextualException_default
      \<lparr>child_frames := renumber [base_frame (Make ''db.cc'' 10 ''Open'' ''open failed'')]\<rparr>"
  have ap: "AppendException ContextualException_default
              (Make ''db.cc'' 10 ''Open'' ''open failed'') = Inr g"
    by (simp add: g_def AppendException_eq ContextualException_default_def Make_def
          ContextualException_msg_eq)
  have rd: "from_default g"
    by (rule from_default.d_append [OF from_default.d_default ap])
  have cg: "map (\<lambda>frame. (CHR 0x0A # ''    '') @ GetFrameMessage frame) (child_frames g) =
             [CHR 0x0A # ''    db.cc:10 | Open() | open failed'']"
    by (simp add: g_def Make_def ContextualException_msg_eq GetFrameMessage_def Frame_init_def
          show_cint_def show_int_def show_nat_10)
  from detailed_message [of g] rd have
    "DetailedErrorMessage g =
       concat (map (\<lambda>frame. (CHR 0x0A # ''    '') @ GetFrameMessage frame) (child_frames g))"
    by blast
  with cg have second: "DetailedErrorMessage g = CHR 0x0A # ''    db.cc:10 | Open() | open failed''"
    by simp
  from first second r rd w ap show ?thesis
    by (simp add: Wrap_def)
qed

text \<open>
  C4 as stated fails for a default-constructed exception: its detailed message is empty,
  not the rendering \<open>":0 | () | "\<close> of its base frame.
\<close>

theorem detailed_message_counterexample:
  "DetailedErrorMessage ContextualException_default \<noteq>
     GetFrameMessage (base_frame ContextualException_default) @
     concat (map (\<lambda>frame. (CHR 0x0A # ''    '') @ GetFrameMessage frame)
               (child_frames ContextualException_default))"
  by (simp add: DetailedErrorMessage_eq ContextualException_default_def GetFrameMessage_def
        Frame_default_def)

text \<open>
  C5. Wrapping a foreign exception, with or without a code, succeeds, leaves the child
  frames empty and makes the base message the given message, \<open>", "\<close> and the foreign
  description when the given message is not empty, and the description alone when it is;
  \<open>"flush failed"\<close> around \<open>"disk err"\<close> gives \<open>"flush failed, disk err"\<close>.
\<close>

theorem wrap_foreign:
  "(\<exists>e. Wrap fl ln fn msg (Other d) = Inr e \<and> child_frames e = [] \<and>
        Message e = (if msg = [] then d else msg @ '', '' @ d)) \<and>
   (\<exists>e. Wrap_code fl ln fn msg c (Other d) = Inr e \<and> child_frames e = [] \<and>
        Message e = (if msg = [] then d else msg @ '', '' @ d)) \<and>
   (\<exists>e. Wrap ''io.cc'' 42 ''Flush'' ''flush failed'' (Other ''disk err'') = Inr e \<and>
        child_frames e = [] \<and> Message e = ''flush failed, disk err'')"
  by (simp add: Wrap_def Wrap_code_def ContextualException_wrap_Other
        ContextualException_wrap_code_Other Message_def Frame_init_def)

text \<open>
  C6, as amended. Wrapping an exception \<open>F\<close> of this class, with or without a code,
  succeeds, and the detailed message of the result is the rendering of the new base frame
  followed by \<open>1 + k\<close> entries, each a newline, four spaces and a rendering: first
  \<open>F\<close>'s base frame, then \<open>F\<close>'s \<open>k\<close> child frames in order. When no message, file or
  function of these frames contains a newline, the text has exactly \<open>1 + 1 + k\<close> lines.
\<close>

theorem wrap_same_kind_lines:
  "(\<exists>e. Wrap fl ln fn msg (Contextual F) = Inr e \<and>
      DetailedErrorMessage e =
        GetFrameMessage (Frame_init msg 0 fl ln fn) @
        concat (map (\<lambda>frame. (CHR 0x0A # ''    '') @ GetFrameMessage frame)
                  (base_frame F # child_frames F)) \<and>
      ((\<forall>frame \<in> set (Frame_init msg 0 fl ln fn # base_frame F # child_frames F).
          CHR 0x0A \<notin> set (message frame @ file' frame @ function' frame))
       \<longrightarrow> length (filter (\<lambda>ch. ch = CHR 0x0A) (DetailedErrorMessage e)) + 1 =
             1 + 1 + length (child_frames F))) \<and>
   (\<exists>e. Wrap_code fl ln fn msg c (Contextual F) = Inr e \<and>
      DetailedErrorMessage e =
        GetFrameMessage (Frame_init msg c fl ln fn) @
        concat (map (\<lambda>frame. (CHR 0x0A # ''    '') @ GetFrameMessage frame)
                  (base_frame F # child_frames F)) \<and>
      ((\<forall>frame \<in> set (Frame_init msg c fl ln fn # base_frame F # child_frames F).
          CHR 0x0A \<notin> set (message frame @ file' frame @ function' frame))
       \<longrightarrow> length (filter (\<lambda>ch. ch = CHR 0x0A) (DetailedErrorMessage e)) + 1 =
             1 + 1 + length (child_frames F)))"
proof (intro conjI)
  show "\<exists>e. Wrap fl ln fn msg (Contextual F) = Inr e \<and>
      DetailedErrorMessage e =
        GetFrameMessage (Frame_init msg 0 fl ln fn) @
        concat (map (\<lambda>frame. (CHR 0x0A # ''    '') @ GetFrameMessage frame)
                  (base_frame F # child_frames F)) \<and>
      ((\<forall>frame \<in> set (Frame_init msg 0 fl ln fn # base_frame F # child_frames F).
          CHR 0x0A \<notin> set (message frame @ file' frame @ function' frame))
       \<longrightarrow> length (filter (\<lambda>ch. ch = CHR 0x0A) (DetailedErrorMessage e)) + 1 =
             1 + 1 + length (child_frames F))"
    unfolding Wrap_def ContextualException_wrap_Contextual
    using wrapped_lines [OF refl, of "Frame_init msg 0 fl ln fn" F] by blast
  show "\<exists>e. Wrap_code fl ln fn msg c (Contextual F) = Inr e \<and>
      DetailedErrorMessage e =
        GetFrameMessage (Frame_init msg c fl ln fn) @
        concat (map (\<lambda>frame. (CHR 0x0A # ''    '') @ GetFrameMessage frame)
                  (base_frame F # child_frames F)) \<and>
      ((\<forall>frame \<in> set (Frame_init msg c fl ln fn # base_frame F # child_frames F).
          CHR 0x0A \<notin> set (message frame @ file' frame @ function' frame))
       \<longrightarrow> length (filter (\<lambda>ch. ch = CHR 0x0A) (DetailedErrorMessage e)) + 1 =
             1 + 1 + length (child_frames F))"
    unfolding Wrap_code_def ContextualException_wrap_code_Contextual
    using wrapped_lines [OF refl, of "Frame_init msg c fl ln fn" F] by blast
qed

text \<open>
  The amended C6 at an \<open>F\<close> with one child frame: three entries, three lines.
\<close>

theorem wrap_same_kind_lines_witness:
  "(let F = \<lparr>base_frame = Frame_init ''open failed'' 0 ''db.cc'' 10 ''Open'',
              child_frames = [(Frame_init ''disk full'' 28 ''io.cc'' 5 ''Flush'')\<lparr>depth := 1\<rparr>],
              error_message = ''db.cc:10 | Open() | open failed''\<rparr>
    in case Wrap ''main.cc'' 5 ''Main'' ''init failed'' (Contextual F) of
         Inl _ \<Rightarrow> False
       | Inr e \<Rightarrow>
           DetailedErrorMessage e =
             ''main.cc:5 | Main() | init failed'' @
             (CHR 0x0A # ''    db.cc:10 | Open() | open failed'') @
             (CHR 0x0A # ''    io.cc:5 | Flush() | [code=28] disk full'') \<and>
           length (filter (\<lambda>ch. ch = CHR 0x0A) (DetailedErrorMessage e)) + 1 = 3 \<and>
           1 + 1 + length (child_frames F) = 3)"
proof -
  define F where "F =
     \<lparr>base_frame = Frame_init ''open failed'' 0 ''db.cc'' 10 ''Open'',
      child_frames = [(Frame_init ''disk full'' 28 ''io.cc'' 5 ''Flush'')\<lparr>depth := 1\<rparr>],
      error_message = ''db.cc:10 | Open() | open failed''\<rparr>"
  have n: "\<forall>frame \<in> set (Frame_init ''init failed'' 0 ''main.cc'' 5 ''Main''
                            # base_frame F # child_frames F).
             CHR 0x0A \<notin> set (message frame @ file' frame @ function' frame)"
    by (simp add: F_def Frame_init_def)
  have k: "length (child_frames F) = 1"
    by (simp add: F_def)
  have g: "GetFrameMessage (Frame_init ''init failed'' 0 ''main.cc'' 5 ''Main'') @
        concat (map (\<lambda>frame. (CHR 0x0A # ''    '') @ GetFrameMessage frame)
                  (base_frame F # child_frames F)) =
        ''main.cc:5 | Main() | init failed'' @
             (CHR 0x0A # ''    db.cc:10 | Open() | open failed'') @
             (CHR 0x0A # ''    io.cc:5 | Flush() | [code=28] disk full'')"
    by (simp add: F_def GetFrameMessage_def Frame_init_def show_cint_def show_int_def
          show_nat.simps)
  from wrap_same_kind_lines [of "''main.cc''" 5 "''Main''" "''init failed''" F] n
  obtain e where "Wrap ''main.cc'' 5 ''Main'' ''init failed'' (Contextual F) = Inr e"
    "DetailedErrorMessage e =
        GetFrameMessage (Frame_init ''init failed'' 0 ''main.cc'' 5 ''Main'') @
        concat (map (\<lambda>frame. (CHR 0x0A # ''    '') @ GetFrameMessage frame)
                  (base_frame F # child_frames F))"
    "length (filter (\<lambda>ch. ch = CHR 0x0A) (DetailedErrorMessage e)) + 1 =
             1 + 1 + length (child_frames F)"
    by blast
  with g k show ?thesis
    unfolding F_def [symmetric] by (simp add: Let_def)
qed

text \<open>
  C6 as stated fails when a message spans two lines: wrapping an \<open>F\<close> without child
  frames under the message \<open>"init\nfailed"\<close> gives three lines of text, not two.
\<close>

theorem wrap_same_kind_lines_counterexample:
  "(let F = Make ''db.cc'' 10 ''Open'' ''open failed''
    in case Wrap ''main.cc'' 5 ''Main'' (''init'' @ [CHR 0x0A] @ ''failed'') (Contextual F) of
         Inl _ \<Rightarrow> False
       | Inr e \<Rightarrow>
           DetailedErrorMessage e =
             ''main.cc:5 | Main() | init'' @ [CHR 0x0A] @ ''failed'' @
             (CHR 0x0A # ''    db.cc:10 | Open() | open failed'') \<and>
           length (filter (\<lambda>ch. ch = CHR 0x0A) (DetailedErrorMessage e)) + 1 = 3 \<and>
           1 + 1 + length (child_frames F) = 2)"
  by (simp add: Wrap_def ContextualException_wrap_Contextual DetailedErrorMessage_eq Make_def
        ContextualException_msg_eq GetFrameMessage_def Frame_init_def show_cint_def show_int_def
        show_nat_5 show_nat_10)

text \<open>
  C7. \<^verbatim>\<open>SafeChain\<close> on a null pointer, with or without a code, returns the null pointer
  and leaves the store as it was: no exception object is made or changed.
\<close>

theorem SafeChain_null:
  "SafeChain fl ln fn msg None s = Inr (None, s) \<and>
   SafeChain_code fl ln fn msg c None s = Inr (None, s)"
  by (simp add: SafeChain_def SafeChain_code_def)

text \<open>
  C8. \<^verbatim>\<open>self->AppendException(*other)\<close> succeeds and changes no object but \<open>self\<close>; in
  particular \<open>other\<close>, a different object, is as before. In \<open>self\<close> the base frame and
  the cached rendering are unchanged, hence \<^verbatim>\<open>what()\<close> and the five accessors too: only
  the child frames can differ. (An object appended to itself would hand
  \<^verbatim>\<open>vector::insert\<close> a range of the vector it inserts into, which the container does
  not allow; \<open>self\<close> and \<open>other\<close> are two objects.)
\<close>

theorem append_frame_effect:
  "\<exists>s'. AppendException_call s self other = Inr s' \<and>
      (\<forall>a. a \<noteq> self \<longrightarrow> s' a = s a) \<and>
      (other \<noteq> self \<longrightarrow> s' other = s other) \<and>
      base_frame (s' self) = base_frame (s self) \<and>
      error_message (s' self) = error_message (s self) \<and>
      what (s' self) = what (s self) \<and>
      Message (s' self) = Message (s self) \<and>
      Code (s' self) = Code (s self) \<and>
      File (s' self) = File (s self) \<and>
      Line (s' self) = Line (s self) \<and>
      Function (s' self) = Function (s self)"
  by (simp add: AppendException_call_def AppendException_eq what_def Message_def Code_def
        File_def Line_def Function_def)

text \<open>
  C8 at a store holding \<open>main.cc:5\<close> at address 0 and \<open>db.cc:10\<close> at address 1.
\<close>

theorem append_frame_effect_witness:
  "(let s = (\<lambda>a. ContextualException_default)
              (0 := Make ''main.cc'' 5 ''Main'' ''init failed'',
               1 := Make ''db.cc'' 10 ''Open'' ''open failed'')
    in case AppendException_call s 0 1 of
         Inl _ \<Rightarrow> False
       | Inr s' \<Rightarrow>
           s' 1 = Make ''db.cc'' 10 ''Open'' ''open failed'' \<and>
           s' 2 = ContextualException_default \<and>
           base_frame (s' 0) = Frame_init ''init failed'' 0 ''main.cc'' 5 ''Main'' \<and>
           what (s' 0) = ''main.cc:5 | Main() | init failed'' \<and>
           Message (s' 0) = ''init failed'')"
proof -
  define s where "s = (\<lambda>a::address. ContextualException_default)
              (0 := Make ''main.cc'' 5 ''Main'' ''init failed'',
               1 := Make ''db.cc'' 10 ''Open'' ''open failed'')"
  have w: "what (s 0) = ''main.cc:5 | Main() | init failed''"
    by (simp add: s_def Make_def ContextualException_msg_eq what_def GetFrameMessage_def
          Frame_init_def show_cint_def show_int_def show_nat_5)
  have b: "base_frame (s 0) = Frame_init ''init failed'' 0 ''main.cc'' 5 ''Main''"
    by (simp add: s_def Make_def ContextualException_msg_eq)
  have o: "s 1 = Make ''db.cc'' 10 ''Open'' ''open failed''" "s 2 = ContextualException_default"
    by (simp_all add: s_def)
  from append_frame_effect [of s 0 1] obtain s' where
    "AppendException_call s 0 1 = Inr s'" "\<forall>a. a \<noteq> 0 \<longrightarrow> s' a = s a"
    "base_frame (s' 0) = base_frame (s 0)" "what (s' 0) = what (s 0)"
    "Message (s' 0) = Message (s 0)"
    by blast
  with w b o show ?thesis
    unfolding s_def [symmetric] by (simp add: Let_def Message_def Frame_init_def)
qed

text \<open>
  C9. \<^verbatim>\<open>AppendFramesFrom\<close> dereferences a null pointer exactly when its argument is not
  of this class. No public entry point reaches that case: \<^verbatim>\<open>WrapException\<close>, the two
  wrapping constructors, \<^verbatim>\<open>AppendException\<close>, \<^verbatim>\<open>Wrap\<close> and \<^verbatim>\<open>SafeChain\<close> return a
  value for every argument.
\<close>

theorem null_dereference_unreachable:
  "(AppendFramesFrom self exception = Inl NullDereference
      \<longleftrightarrow> \<not> IsContextualException exception) \<and>
   (\<exists>e. WrapException self exception = Inr e) \<and>
   (\<exists>e. ContextualException_wrap msg exception fl ln fn = Inr e) \<and>
   (\<exists>e. ContextualException_wrap_code msg c exception fl ln fn = Inr e) \<and>
   (\<exists>e. AppendException self other = Inr e) \<and>
   (\<exists>e. Wrap fl ln fn msg exception = Inr e) \<and>
   (\<exists>e. Wrap_code fl ln fn msg c exception = Inr e) \<and>
   (\<exists>r. SafeChain fl ln fn msg p s = Inr r) \<and>
   (\<exists>r. SafeChain_code fl ln fn msg c p s = Inr r)"
proof -
  have cast: "AppendFramesFrom self exception = Inl NullDereference
      \<longleftrightarrow> \<not> IsContextualException exception"
    by (cases exception)
       (simp_all add: AppendFramesFrom_def IsContextualException_def dynamic_cast_def)
  have wrap: "\<exists>e. WrapException self' exception = Inr e" for self'
    by (cases exception) (simp_all add: WrapException_Contextual WrapException_Other)
  have c1: "\<exists>e. ContextualException_wrap msg exception fl ln fn = Inr e"
    by (cases exception)
       (simp_all add: ContextualException_wrap_Contextual ContextualException_wrap_Other)
  have c2: "\<exists>e. ContextualException_wrap_code msg c exception fl ln fn = Inr e"
    by (cases exception)
       (simp_all add: ContextualException_wrap_code_Contextual ContextualException_wrap_code_Other)
  have chain: "\<exists>r. SafeChain fl ln fn msg p s = Inr r"
    by (cases p) (simp_all add: SafeChain_def AppendException_eq Let_def)
  have chain_code: "\<exists>r. SafeChain_code fl ln fn msg c p s = Inr r"
    by (cases p) (simp_all add: SafeChain_code_def AppendException_eq Let_def)
  from cast wrap c1 c2 chain chain_code show ?thesis
    by (simp add: AppendException_eq Wrap_def Wrap_code_def)
qed

text \<open>
  C10. A default-constructed exception has an empty \<^verbatim>\<open>what()\<close>, which is not the
  rendering \<open>":0 | () | "\<close> of its base frame; its message, file and function are empty,
  its code and line are 0, it has no child frames and its detailed message is empty.
\<close>

theorem default_constructed:
  "what ContextualException_default = [] \<and>
   GetFrameMessage (base_frame ContextualException_default) = '':0 | () | '' \<and>
   what ContextualException_default \<noteq> GetFrameMessage (base_frame ContextualException_default) \<and>
   Message ContextualException_default = [] \<and>
   File ContextualException_default = [] \<and>
   Function ContextualException_default = [] \<and>
   Code ContextualException_default = 0 \<and>
   Line ContextualException_default = 0 \<and>
   child_frames ContextualException_default = [] \<and>
   DetailedErrorMessage ContextualException_default = []"
  by (simp add: what_def ContextualException_default_def Frame_default_def GetFrameMessage_def
        Message_def File_def Function_def Code_def Line_def DetailedErrorMessage_eq
        show_cint_def show_int_def show_nat_0)

end
